theory Spec2Isabelle
  imports Main
begin

section \<open>Data model\<close>

text \<open>
  Pointers are natural numbers: \<open>addr\<close> for a \<^verbatim>\<open>struct fpga_region_interface *\<close>
  (or a \<^verbatim>\<open>struct fpga_bridge *\<close> cast to one), \<open>node\<close> for a
  \<^verbatim>\<open>struct device_node *\<close>, \<open>image_info\<close> for a \<^verbatim>\<open>struct fpga_image_info *\<close>.
  A pointer that may be \<^verbatim>\<open>NULL\<close> is an \<open>option\<close>; a node pointer is handed on to the
  kernel as it is, with 0 for \<^verbatim>\<open>NULL\<close>. Return codes are C \<^verbatim>\<open>int\<close>s: \<open>0\<close> for success,
  a negative errno otherwise.
\<close>

type_synonym addr = nat
type_synonym node = nat
type_synonym image_info = nat

definition EBUSY :: int where
  "EBUSY = 16"

definition ENODEV :: int where
  "ENODEV = 19"

text \<open>
  \<^verbatim>\<open>interface->dev.class\<close>: the list functions compare it with
  \<^verbatim>\<open>fpga_region_interface_class\<close> and treat every other object as a legacy
  \<^verbatim>\<open>struct fpga_bridge\<close>.
\<close>

datatype dev_class = fpga_region_interface_class | other_class

datatype device = region_dev | interface_dev addr

text \<open>
  The calls that leave this repository (provider hooks, the kernel's bridge, manager,
  device and module functions) are recorded, in order, in a trace.
\<close>

datatype event =
    GetDevice device
  | PutDevice device
  | ModuleGet device
  | ModulePut device
  | DeviceUnregister device
  | EnableSet addr bool
  | OfSetup addr node
  | Remove addr
  | BridgeGet addr
  | BridgeEnable addr
  | BridgeDisable addr
  | BridgePut addr
  | MgrLoad "image_info option"

text \<open>
  \<^verbatim>\<open>struct fpga_region_interface_ops\<close>: every hook is optional (a \<^verbatim>\<open>NULL\<close> function
  pointer is \<open>None\<close>). A hook works on the provider's private data \<^verbatim>\<open>priv\<close>.
\<close>

record 'p fpga_region_interface_ops =
  enable_show :: "('p \<Rightarrow> int) option"
  enable_set :: "(bool \<Rightarrow> 'p \<Rightarrow> int \<times> 'p) option"
  of_setup :: "(node \<Rightarrow> 'p \<Rightarrow> int \<times> 'p) option"
  remove :: "('p \<Rightarrow> 'p) option"

text \<open>
  \<^verbatim>\<open>struct fpga_region_interface\<close>. \<open>mutex\<close> is \<open>True\<close> while the mutex is locked
  (the interface is held). The list link \<^verbatim>\<open>node\<close> is the position of the
  interface's address in an interface list.
\<close>

record 'p fpga_region_interface =
  name :: string
  dev_class :: dev_class
  mutex :: bool
  ops :: "'p fpga_region_interface_ops option"
  info :: "image_info option"
  priv :: 'p

text \<open>
  The kernel's device tree: a node has an address, a name and children.
  \<open>of_allnodes\<close> is the order in which the kernel walks all nodes (a node, then each of
  its children with the child's whole subtree, then the node's next sibling);
  \<open>of_child_nodes\<close> gives the children of the node at an address.
\<close>

datatype device_tree = DNode node string "device_tree list"


fun of_allnodes :: "device_tree \<Rightarrow> (node \<times> string) list" where
  "of_allnodes (DNode n nm cs) = (n, nm) # concat (map of_allnodes cs)"


text \<open>
  The kernel the code runs on, as a parameter: whether \<^verbatim>\<open>try_module_get\<close> succeeds
  for a device's driver, the class lookups, the device tree, the nodes that a node's
  \<^verbatim>\<open>"fpga-bridges"\<close> property refers to (\<^verbatim>\<open>of_parse_phandle(np, "fpga-bridges", i)\<close> is
  the \<open>i\<close>-th of them, \<^verbatim>\<open>NULL\<close> behind the last), the legacy bridge functions and the
  manager's load. Each function gives its result for its arguments; what it does to
  the kernel's own objects (reference counts, the legacy bridges) is outside the state
  below and shows as an event in the trace.
\<close>

record kernel =
  try_module_get :: "device \<Rightarrow> bool"
  class_find_device_by_of_node :: "node \<Rightarrow> addr option"
  class_find_device :: "addr \<Rightarrow> addr option"
  of_tree :: device_tree
  fpga_bridges :: "node \<Rightarrow> node list"
  fpga_bridge_enable :: "addr \<Rightarrow> int"
  fpga_bridge_disable :: "addr \<Rightarrow> int"
  of_fpga_bridge_get :: "node \<Rightarrow> image_info option \<Rightarrow> int + addr"
  fpga_bridge_get :: "addr \<Rightarrow> image_info option \<Rightarrow> int + addr"
  fpga_mgr_load :: "image_info option \<Rightarrow> int"

text \<open>
  The kernel's \<^verbatim>\<open>of_find_node_by_name(from, name)\<close>: it walks the nodes that follow
  \<^verbatim>\<open>from\<close> in the order of all nodes (\<^verbatim>\<open>from\<close> itself is not looked at) and returns the
  first one whose name is \<^verbatim>\<open>name\<close>, or \<^verbatim>\<open>NULL\<close>. So it looks at the descendants of
  \<^verbatim>\<open>from\<close> first and then goes on to the nodes behind its subtree. With \<^verbatim>\<open>from = NULL\<close>,
  the node address 0, the walk starts at the root.
\<close>

definition of_find_node_by_name :: "kernel \<Rightarrow> node \<Rightarrow> string \<Rightarrow> node option" where
  "of_find_node_by_name K start nm =
     (let later =
        (if start = 0 then of_allnodes (of_tree K)
         else case dropWhile (\<lambda>x. fst x \<noteq> start) (of_allnodes (of_tree K)) of
                [] \<Rightarrow> []
              | x # rest \<Rightarrow> rest)
      in case filter (\<lambda>x. snd x = nm) later of
           [] \<Rightarrow> None
         | x # xs \<Rightarrow> Some (fst x))"

text \<open>
  The state: one \<^verbatim>\<open>struct fpga_region_core\<close> (its mutex, image info and interface
  list), the \<^verbatim>\<open>ref_mutex\<close> of its manager, the store of interface objects, and the
  trace.
\<close>

record 'p sys =
  region_mutex :: bool
  region_info :: "image_info option"
  region_interface_list :: "addr list"
  mgr_ref_mutex :: bool
  interfaces :: "addr \<Rightarrow> 'p fpga_region_interface"
  trace :: "event list"

definition emit :: "event \<Rightarrow> 'p sys \<Rightarrow> 'p sys" where
  "emit e s = s\<lparr>trace := trace s @ [e]\<rparr>"

definition set_interface ::
  "addr \<Rightarrow> 'p fpga_region_interface \<Rightarrow> 'p sys \<Rightarrow> 'p sys" where
  "set_interface a i s = s\<lparr>interfaces := (interfaces s)(a := i)\<rparr>"

section \<open>Single interfaces\<close>

text \<open>\<^verbatim>\<open>interface->ops && interface->ops->enable_set\<close>, and the same for the other hooks.\<close>

definition ops_enable_set ::
  "'p fpga_region_interface \<Rightarrow> (bool \<Rightarrow> 'p \<Rightarrow> int \<times> 'p) option" where
  "ops_enable_set i = (case ops i of None \<Rightarrow> None | Some c \<Rightarrow> enable_set c)"

definition ops_of_setup ::
  "'p fpga_region_interface \<Rightarrow> (node \<Rightarrow> 'p \<Rightarrow> int \<times> 'p) option" where
  "ops_of_setup i = (case ops i of None \<Rightarrow> None | Some c \<Rightarrow> of_setup c)"

definition ops_remove :: "'p fpga_region_interface \<Rightarrow> ('p \<Rightarrow> 'p) option" where
  "ops_remove i = (case ops i of None \<Rightarrow> None | Some c \<Rightarrow> remove c)"

text \<open>\<^verbatim>\<open>interface->ops->enable_set(interface, enable)\<close>\<close>

definition call_enable_set ::
  "(bool \<Rightarrow> 'p \<Rightarrow> int \<times> 'p) \<Rightarrow> addr \<Rightarrow> bool \<Rightarrow> 'p sys \<Rightarrow> int \<times> 'p sys" where
  "call_enable_set f a enable s =
     (let i = interfaces s a; (ret, p) = f enable (priv i)
      in (ret, emit (EnableSet a enable) (set_interface a (i\<lparr>priv := p\<rparr>) s)))"

definition fpga_region_interface_enable :: "kernel \<Rightarrow> addr \<Rightarrow> 'p sys \<Rightarrow> int \<times> 'p sys" where
  "fpga_region_interface_enable K a s =
     (if dev_class (interfaces s a) \<noteq> fpga_region_interface_class
      then (fpga_bridge_enable K a, emit (BridgeEnable a) s)
      else case ops_enable_set (interfaces s a) of
             Some f \<Rightarrow> call_enable_set f a True s
           | None \<Rightarrow> (0, s))"

definition fpga_region_interface_disable :: "kernel \<Rightarrow> addr \<Rightarrow> 'p sys \<Rightarrow> int \<times> 'p sys" where
  "fpga_region_interface_disable K a s =
     (if dev_class (interfaces s a) \<noteq> fpga_region_interface_class
      then (fpga_bridge_disable K a, emit (BridgeDisable a) s)
      else case ops_enable_set (interfaces s a) of
             Some f \<Rightarrow> call_enable_set f a False s
           | None \<Rightarrow> (0, s))"

text \<open>\<^verbatim>\<open>interface->ops->of_setup(interface, node)\<close>\<close>

definition call_of_setup ::
  "(node \<Rightarrow> 'p \<Rightarrow> int \<times> 'p) \<Rightarrow> addr \<Rightarrow> node \<Rightarrow> 'p sys \<Rightarrow> int \<times> 'p sys" where
  "call_of_setup f a n s =
     (let i = interfaces s a; (retval, p) = f n (priv i)
      in (retval, emit (OfSetup a n) (set_interface a (i\<lparr>priv := p\<rparr>) s)))"

definition fpga_region_interface_of_setup ::
  "kernel \<Rightarrow> addr \<Rightarrow> node \<Rightarrow> 'p sys \<Rightarrow> int \<times> 'p sys" where
  "fpga_region_interface_of_setup K a np s =
     (if dev_class (interfaces s a) \<noteq> fpga_region_interface_class then (0, s)
      else case ops_of_setup (interfaces s a) of
             Some f \<Rightarrow>
               (case of_find_node_by_name K np (name (interfaces s a)) of
                  Some n \<Rightarrow> call_of_setup f a n s
                | None \<Rightarrow> (0, s))
           | None \<Rightarrow> (0, s))"

text \<open>
  \<^verbatim>\<open>mutex_trylock(&interface->mutex)\<close> and \<^verbatim>\<open>mutex_unlock(&interface->mutex)\<close>:
  the try-lock never waits; it fails (\<open>False\<close>) on a locked mutex and changes nothing.
\<close>

definition interface_mutex_trylock :: "addr \<Rightarrow> 'p sys \<Rightarrow> bool \<times> 'p sys" where
  "interface_mutex_trylock a s =
     (if mutex (interfaces s a) then (False, s)
      else (True, set_interface a ((interfaces s a)\<lparr>mutex := True\<rparr>) s))"

definition interface_mutex_unlock :: "addr \<Rightarrow> 'p sys \<Rightarrow> 'p sys" where
  "interface_mutex_unlock a s = set_interface a ((interfaces s a)\<lparr>mutex := False\<rparr>) s"

text \<open>
  \<^verbatim>\<open>__fpga_region_interface_get(dev, info)\<close>, for the interface at \<open>a\<close>. The result is
  \<open>Inr a\<close> for the interface, \<open>Inl e\<close> for \<^verbatim>\<open>ERR_PTR(e)\<close>. The assignment to
  \<^verbatim>\<open>interface->info\<close> comes first, as in the source.
\<close>

definition internal_fpga_region_interface_get ::
  "kernel \<Rightarrow> addr \<Rightarrow> image_info option \<Rightarrow> 'p sys \<Rightarrow> (int + addr) \<times> 'p sys" where
  "internal_fpga_region_interface_get K a img s =
     (let s1 = set_interface a ((interfaces s a)\<lparr>info := img\<rparr>) s
      in case interface_mutex_trylock a s1 of
           (False, s2) \<Rightarrow> (Inl (- EBUSY), emit (PutDevice (interface_dev a)) s2)
         | (True, s2) \<Rightarrow>
             if \<not> try_module_get K (interface_dev a)
             then (Inl (- ENODEV),
                   emit (PutDevice (interface_dev a)) (interface_mutex_unlock a s2))
             else (Inr a, emit (ModuleGet (interface_dev a)) s2))"

text \<open>
  \<^verbatim>\<open>of_fpga_region_interface_get(np, info)\<close> and \<^verbatim>\<open>fpga_region_interface_get(dev, info)\<close>:
  the class lookup takes a reference to the device it finds.
\<close>

definition of_fpga_region_interface_get ::
  "kernel \<Rightarrow> node \<Rightarrow> image_info option \<Rightarrow> 'p sys \<Rightarrow> (int + addr) \<times> 'p sys" where
  "of_fpga_region_interface_get K np img s =
     (case class_find_device_by_of_node K np of
        None \<Rightarrow> (Inl (- ENODEV), s)
      | Some a \<Rightarrow>
          internal_fpga_region_interface_get K a img (emit (GetDevice (interface_dev a)) s))"

definition fpga_region_interface_get ::
  "kernel \<Rightarrow> addr \<Rightarrow> image_info option \<Rightarrow> 'p sys \<Rightarrow> (int + addr) \<times> 'p sys" where
  "fpga_region_interface_get K dev img s =
     (case class_find_device K dev of
        None \<Rightarrow> (Inl (- ENODEV), s)
      | Some a \<Rightarrow>
          internal_fpga_region_interface_get K a img (emit (GetDevice (interface_dev a)) s))"

text \<open>\<^verbatim>\<open>fpga_region_interface_put(interface)\<close>\<close>

definition fpga_region_interface_put :: "addr \<Rightarrow> 'p sys \<Rightarrow> 'p sys" where
  "fpga_region_interface_put a s =
     (let s1 = set_interface a ((interfaces s a)\<lparr>info := None\<rparr>) s;
          s2 = emit (ModulePut (interface_dev a)) s1;
          s3 = interface_mutex_unlock a s2
      in emit (PutDevice (interface_dev a)) s3)"

text \<open>\<^verbatim>\<open>fpga_region_interface_unregister(interface)\<close>\<close>

definition fpga_region_interface_unregister :: "addr \<Rightarrow> 'p sys \<Rightarrow> 'p sys" where
  "fpga_region_interface_unregister a s =
     (let s1 = (case ops_remove (interfaces s a) of
                  Some f \<Rightarrow>
                    emit (Remove a)
                      (set_interface a ((interfaces s a)\<lparr>priv := f (priv (interfaces s a))\<rparr>) s)
                | None \<Rightarrow> s)
      in emit (DeviceUnregister (interface_dev a)) s1)"

section \<open>Interface lists\<close>

text \<open>
  A \<^verbatim>\<open>struct list_head\<close> list of interfaces is the list of their addresses, head
  first. \<^verbatim>\<open>list_add\<close> inserts right after the head, so the new entry becomes the
  first one; \<^verbatim>\<open>list_for_each_entry\<close> walks head to tail and
  \<^verbatim>\<open>list_for_each_entry_reverse\<close> tail to head.
\<close>

definition list_add :: "addr \<Rightarrow> addr list \<Rightarrow> addr list" where
  "list_add a l = a # l"

fun fpga_region_interfaces_enable :: "kernel \<Rightarrow> addr list \<Rightarrow> 'p sys \<Rightarrow> int \<times> 'p sys" where
  "fpga_region_interfaces_enable K [] s = (0, s)"
| "fpga_region_interfaces_enable K (a # l) s =
     (case fpga_region_interface_enable K a s of
        (ret, s') \<Rightarrow> if ret \<noteq> 0 then (ret, s') else fpga_region_interfaces_enable K l s')"

text \<open>The body of the loop of \<^verbatim>\<open>fpga_region_interfaces_disable\<close>, over the entries in
  the order they are visited.\<close>

fun interfaces_disable_each :: "kernel \<Rightarrow> addr list \<Rightarrow> 'p sys \<Rightarrow> int \<times> 'p sys" where
  "interfaces_disable_each K [] s = (0, s)"
| "interfaces_disable_each K (a # l) s =
     (case fpga_region_interface_disable K a s of
        (ret, s') \<Rightarrow> if ret \<noteq> 0 then (ret, s') else interfaces_disable_each K l s')"

definition fpga_region_interfaces_disable ::
  "kernel \<Rightarrow> addr list \<Rightarrow> 'p sys \<Rightarrow> int \<times> 'p sys" where
  "fpga_region_interfaces_disable K l s = interfaces_disable_each K (rev l) s"


text \<open>
  \<^verbatim>\<open>fpga_region_interfaces_put(interface_list)\<close>: each entry is put and unlinked
  (\<^verbatim>\<open>list_del\<close>); the result is the list that is left and the new state.
\<close>

fun fpga_region_interfaces_put :: "kernel \<Rightarrow> addr list \<Rightarrow> 'p sys \<Rightarrow> addr list \<times> 'p sys" where
  "fpga_region_interfaces_put K [] s = ([], s)"
| "fpga_region_interfaces_put K (a # l) s =
     fpga_region_interfaces_put K l
       (if dev_class (interfaces s a) = fpga_region_interface_class
        then fpga_region_interface_put a s
        else emit (BridgePut a) s)"

text \<open>
  \<^verbatim>\<open>of_fpga_region_interface_get_to_list(np, info, interface_list)\<close> and
  \<^verbatim>\<open>fpga_region_interface_get_to_list(dev, info, interface_list)\<close>: the result is the
  return code, the list and the state.
\<close>

definition of_fpga_region_interface_get_to_list ::
  "kernel \<Rightarrow> node \<Rightarrow> image_info option \<Rightarrow> addr list \<Rightarrow> 'p sys \<Rightarrow> int \<times> addr list \<times> 'p sys" where
  "of_fpga_region_interface_get_to_list K np img l s =
     (case of_fpga_region_interface_get K np img s of
        (Inr a, s1) \<Rightarrow> (0, list_add a l, s1)
      | (Inl e, s1) \<Rightarrow>
          (case of_fpga_bridge_get K np img of
             Inr b \<Rightarrow> (0, list_add b l, emit (BridgeGet b) s1)
           | Inl e' \<Rightarrow> (e', l, s1)))"

definition fpga_region_interface_get_to_list ::
  "kernel \<Rightarrow> addr \<Rightarrow> image_info option \<Rightarrow> addr list \<Rightarrow> 'p sys \<Rightarrow> int \<times> addr list \<times> 'p sys" where
  "fpga_region_interface_get_to_list K dev img l s =
     (case fpga_region_interface_get K dev img s of
        (Inr a, s1) \<Rightarrow> (0, list_add a l, s1)
      | (Inl e, s1) \<Rightarrow>
          (case fpga_bridge_get K dev img of
             Inr b \<Rightarrow> (0, list_add b l, emit (BridgeGet b) s1)
           | Inl e' \<Rightarrow> (e', l, s1)))"

section \<open>The region\<close>

text \<open>\<^verbatim>\<open>fpga_region_core_get(region)\<close> and \<^verbatim>\<open>fpga_region_core_put(region)\<close>\<close>

definition fpga_region_core_get :: "kernel \<Rightarrow> 'p sys \<Rightarrow> (int + unit) \<times> 'p sys" where
  "fpga_region_core_get K s =
     (if region_mutex s then (Inl (- EBUSY), s)
      else let s1 = emit (GetDevice region_dev) (s\<lparr>region_mutex := True\<rparr>)
           in if \<not> try_module_get K region_dev
              then (Inl (- ENODEV), (emit (PutDevice region_dev) s1)\<lparr>region_mutex := False\<rparr>)
              else (Inr (), emit (ModuleGet region_dev) s1))"

definition fpga_region_core_put :: "'p sys \<Rightarrow> 'p sys" where
  "fpga_region_core_put s =
     (emit (PutDevice region_dev) (emit (ModulePut region_dev) s))\<lparr>region_mutex := False\<rparr>"

text \<open>
  Modelled from the spec: the kernel's \<^verbatim>\<open>fpga_mgr_lock\<close> and \<^verbatim>\<open>fpga_mgr_unlock\<close>
  are not part of this repository. The spec gives the programming engine a
  non-blocking lock, \<^verbatim>\<open>tryLock() -> Result<Token, Busy>\<close> and \<^verbatim>\<open>unlock(Token)\<close>.
\<close>

definition fpga_mgr_lock :: "'p sys \<Rightarrow> int \<times> 'p sys" where
  "fpga_mgr_lock s =
     (if mgr_ref_mutex s then (- EBUSY, s) else (0, s\<lparr>mgr_ref_mutex := True\<rparr>))"

definition fpga_mgr_unlock :: "'p sys \<Rightarrow> 'p sys" where
  "fpga_mgr_unlock s = s\<lparr>mgr_ref_mutex := False\<rparr>"

text \<open>
  \<^verbatim>\<open>fpga_region_core_program_fpga(region)\<close>. The optional callback
  \<^verbatim>\<open>region->get_interfaces\<close> is the parameter \<open>gi\<close>. The three error labels are
  three functions, each falling through to the next.
\<close>

definition err_put_region :: "int \<Rightarrow> 'p sys \<Rightarrow> int \<times> 'p sys" where
  "err_put_region ret s = (ret, fpga_region_core_put s)"

definition err_unlock_mgr :: "int \<Rightarrow> 'p sys \<Rightarrow> int \<times> 'p sys" where
  "err_unlock_mgr ret s = err_put_region ret (fpga_mgr_unlock s)"

definition err_put_br ::
  "kernel \<Rightarrow> ('p sys \<Rightarrow> int \<times> 'p sys) option \<Rightarrow> int \<Rightarrow> 'p sys \<Rightarrow> int \<times> 'p sys" where
  "err_put_br K gi ret s =
     err_unlock_mgr ret
       (case gi of
          Some g \<Rightarrow>
            (case fpga_region_interfaces_put K (region_interface_list s) s of
               (l, s') \<Rightarrow> s'\<lparr>region_interface_list := l\<rparr>)
        | None \<Rightarrow> s)"

definition fpga_region_core_program_fpga ::
  "kernel \<Rightarrow> ('p sys \<Rightarrow> int \<times> 'p sys) option \<Rightarrow> 'p sys \<Rightarrow> int \<times> 'p sys" where
  "fpga_region_core_program_fpga K gi s =
     (let img = region_info s
      in case fpga_region_core_get K s of
           (Inl e, s0) \<Rightarrow> (e, s0)
         | (Inr u, s0) \<Rightarrow>
      case fpga_mgr_lock s0 of (ret, s1) \<Rightarrow>
        if ret \<noteq> 0 then err_put_region ret s1 else
      case (case gi of Some g \<Rightarrow> g s1 | None \<Rightarrow> (0, s1)) of (ret, s2) \<Rightarrow>
        if ret \<noteq> 0 then err_unlock_mgr ret s2 else
      case fpga_region_interfaces_disable K (region_interface_list s2) s2 of (ret, s3) \<Rightarrow>
        if ret \<noteq> 0 then err_put_br K gi ret s3 else
      case (fpga_mgr_load K img, emit (MgrLoad img) s3) of (ret, s4) \<Rightarrow>
        if ret \<noteq> 0 then err_put_br K gi ret s4 else
      case fpga_region_interfaces_enable K (region_interface_list s4) s4 of (ret, s5) \<Rightarrow>
        if ret \<noteq> 0 then err_put_br K gi ret s5 else
      (0, fpga_region_core_put (fpga_mgr_unlock s5)))"

section \<open>The region manager's callback\<close>






section \<open>Example configurations\<close>

text \<open>
  Concrete providers and states, used to run the functions above. The private data is
  a number: the clock provider counts its enables, stores the node it was set up from,
  and resets to 0 on remove; the failing provider refuses every enable and disable
  with \<open>-5\<close> (\<^verbatim>\<open>-EIO\<close>).
\<close>

definition clock_ops :: "nat fpga_region_interface_ops" where
  "clock_ops =
     \<lparr>enable_show = None,
      enable_set = Some (\<lambda>enable p. (0, if enable then p + 1 else p)),
      of_setup = Some (\<lambda>n p. (0, n)),
      remove = Some (\<lambda>p. 0)\<rparr>"

definition failing_ops :: "nat fpga_region_interface_ops" where
  "failing_ops =
     \<lparr>enable_show = None,
      enable_set = Some (\<lambda>enable p. (- 5, p)),
      of_setup = None,
      remove = None\<rparr>"

definition interface0 :: "nat fpga_region_interface" where
  "interface0 =
     \<lparr>name = ''fpga-clk0'', dev_class = fpga_region_interface_class, mutex = False,
      ops = Some clock_ops, info = None, priv = 7\<rparr>"

text \<open>
  The device tree: under the root, the region's node 40 with the child 30 named
  \<open>fpga-clk0\<close>, a second region's node 60 without children, the device nodes 20 and 10
  of two clock interfaces, the second one named \<open>fpga-clk0\<close>, and an overlay node 70.
  The \<^verbatim>\<open>"fpga-bridges"\<close> of the region's node refer to node 20.
\<close>

definition tree0 :: device_tree where
  "tree0 =
     DNode 100 ''/''
       [DNode 40 ''fpga-top-region'' [DNode 30 ''fpga-clk0'' []],
        DNode 60 ''fpga-sub-region'' [],
        DNode 20 ''fpga-clk1'' [],
        DNode 10 ''fpga-clk0'' [],
        DNode 70 ''overlay'' []]"

definition kernel0 :: kernel where
  "kernel0 =
     \<lparr>try_module_get = (\<lambda>d. True),
      class_find_device_by_of_node =
        (\<lambda>n. if n = 10 then Some 1 else if n = 20 then Some 2 else None),
      class_find_device = (\<lambda>d. None),
      of_tree = tree0,
      fpga_bridges = (\<lambda>n. if n = 40 then [20] else []),
      fpga_bridge_enable = (\<lambda>b. 0),
      fpga_bridge_disable = (\<lambda>b. 0),
      of_fpga_bridge_get = (\<lambda>np img. Inl (- ENODEV)),
      fpga_bridge_get = (\<lambda>d img. Inl (- ENODEV)),
      fpga_mgr_load = (\<lambda>img. 0)\<rparr>"

text \<open>Every address holds a free clock interface; the region is idle with an empty list.\<close>

definition sys0 :: "nat sys" where
  "sys0 =
     \<lparr>region_mutex = False, region_info = Some 5, region_interface_list = [],
      mgr_ref_mutex = False, interfaces = (\<lambda>a. interface0), trace = []\<rparr>"

text \<open>A \<^verbatim>\<open>get_interfaces\<close> callback that acquires the interface of node 20 to the
  region's list.\<close>

definition get_interfaces0 :: "nat sys \<Rightarrow> int \<times> nat sys" where
  "get_interfaces0 s =
     (case of_fpga_region_interface_get_to_list kernel0 20 (region_info s)
             (region_interface_list s) s of
        (ret, l, s') \<Rightarrow> (ret, s'\<lparr>region_interface_list := l\<rparr>))"

text \<open>As \<open>sys0\<close>, but the interface at address 2 has the failing provider.\<close>

definition sys_failing :: "nat sys" where
  "sys_failing = sys0\<lparr>interfaces := (\<lambda>a. interface0)(2 := interface0\<lparr>ops := Some failing_ops\<rparr>)\<rparr>"

text \<open>A region created without \<^verbatim>\<open>get_interfaces\<close>, whose creator put the held
  interface 2 on its list.\<close>

definition sys_static :: "nat sys" where
  "sys_static =
     sys0\<lparr>region_interface_list := [2],
          interfaces := (\<lambda>a. interface0)
            (2 := interface0\<lparr>ops := Some failing_ops, mutex := True, info := Some 5\<rparr>)\<rparr>"





section \<open>What a call may change\<close>

text \<open>
  Two views of a state, used to say what a function leaves alone: the region's and the
  manager's fields, and, for each address, the class, lock and recorded image info of
  the object there (everything but its private data).
\<close>

definition region_view :: "'p sys \<Rightarrow> bool \<times> image_info option \<times> addr list \<times> bool" where
  "region_view s = (region_mutex s, region_info s, region_interface_list s, mgr_ref_mutex s)"

definition held_view :: "'p sys \<Rightarrow> addr \<Rightarrow> dev_class \<times> bool \<times> image_info option" where
  "held_view s a = (dev_class (interfaces s a), mutex (interfaces s a), info (interfaces s a))"

section \<open>Basic facts\<close>

lemma emit_simps [simp]:
  "region_mutex (emit e s) = region_mutex s"
  "region_info (emit e s) = region_info s"
  "region_interface_list (emit e s) = region_interface_list s"
  "mgr_ref_mutex (emit e s) = mgr_ref_mutex s"
  "interfaces (emit e s) = interfaces s"
  "trace (emit e s) = trace s @ [e]"
  by (simp_all add: emit_def)

lemma set_interface_simps [simp]:
  "region_mutex (set_interface a i s) = region_mutex s"
  "region_info (set_interface a i s) = region_info s"
  "region_interface_list (set_interface a i s) = region_interface_list s"
  "mgr_ref_mutex (set_interface a i s) = mgr_ref_mutex s"
  "interfaces (set_interface a i s) = (interfaces s)(a := i)"
  "trace (set_interface a i s) = trace s"
  by (simp_all add: set_interface_def)

lemmas interface_defs =
  fpga_region_interface_enable_def fpga_region_interface_disable_def
  fpga_region_interface_of_setup_def call_enable_set_def call_of_setup_def
  ops_enable_set_def ops_of_setup_def ops_remove_def


lemmas get_put_defs =
  internal_fpga_region_interface_get_def of_fpga_region_interface_get_def
  fpga_region_interface_get_def interface_mutex_trylock_def interface_mutex_unlock_def
  fpga_region_interface_put_def fpga_region_interface_unregister_def
  of_fpga_region_interface_get_to_list_def fpga_region_interface_get_to_list_def
  list_add_def

lemmas list_defs = fpga_region_interfaces_disable_def

lemmas region_defs =
  fpga_region_core_program_fpga_def fpga_region_core_get_def fpga_region_core_put_def
  fpga_mgr_lock_def fpga_mgr_unlock_def err_put_region_def err_unlock_mgr_def err_put_br_def
  get_interfaces0_def

lemmas example_defs =
  clock_ops_def failing_ops_def interface0_def kernel0_def sys0_def EBUSY_def ENODEV_def
  tree0_def of_find_node_by_name_def

section \<open>Single-interface hooks\<close>

text \<open>
  C9. For an interface (an object of the region-interface class),
  \<^verbatim>\<open>fpga_region_interface_enable\<close> and \<^verbatim>\<open>fpga_region_interface_disable\<close> call the
  provider's \<^verbatim>\<open>enable_set\<close> hook when it is present, once, with \<open>True\<close> respectively
  \<open>False\<close>, and return its result; when the ops structure or the hook is absent they
  return 0 and leave the state as it is.
\<close>

theorem interface_enable_disable_hook:
  assumes "dev_class (interfaces s a) = fpga_region_interface_class"
  shows "(\<forall>c f. ops (interfaces s a) = Some c \<and> enable_set c = Some f \<longrightarrow>
            fst (fpga_region_interface_enable K a s) = fst (f True (priv (interfaces s a))) \<and>
            priv (interfaces (snd (fpga_region_interface_enable K a s)) a)
              = snd (f True (priv (interfaces s a))) \<and>
            trace (snd (fpga_region_interface_enable K a s)) = trace s @ [EnableSet a True] \<and>
            fst (fpga_region_interface_disable K a s) = fst (f False (priv (interfaces s a))) \<and>
            priv (interfaces (snd (fpga_region_interface_disable K a s)) a)
              = snd (f False (priv (interfaces s a))) \<and>
            trace (snd (fpga_region_interface_disable K a s)) = trace s @ [EnableSet a False])
       \<and> ((ops (interfaces s a) = None \<or>
            (\<exists>c. ops (interfaces s a) = Some c \<and> enable_set c = None)) \<longrightarrow>
            fpga_region_interface_enable K a s = (0, s) \<and>
            fpga_region_interface_disable K a s = (0, s))"
  using assms
  by (auto simp: interface_defs Let_def split: prod.splits option.splits)

text \<open>The clock interface at address 1 is enabled and disabled through its hook; an
  interface without ops is left alone.\<close>

theorem interface_enable_disable_hook_witness:
  "fst (fpga_region_interface_enable kernel0 1 sys0) = 0 \<and>
   priv (interfaces (snd (fpga_region_interface_enable kernel0 1 sys0)) 1) = 8 \<and>
   trace (snd (fpga_region_interface_enable kernel0 1 sys0)) = [EnableSet 1 True] \<and>
   trace (snd (fpga_region_interface_disable kernel0 1 sys0)) = [EnableSet 1 False] \<and>
   fpga_region_interface_enable kernel0 1 (sys0\<lparr>interfaces := (\<lambda>a. interface0\<lparr>ops := None\<rparr>)\<rparr>)
     = (0, sys0\<lparr>interfaces := (\<lambda>a. interface0\<lparr>ops := None\<rparr>)\<rparr>)"
  using interface_enable_disable_hook [of sys0 1 kernel0]
    interface_enable_disable_hook
      [of "sys0\<lparr>interfaces := (\<lambda>a. interface0\<lparr>ops := None\<rparr>)\<rparr>" 1 kernel0]
  by (simp add: example_defs)

subsection \<open>The device-tree search\<close>









section \<open>Region exclusivity\<close>

text \<open>
  C4. When the region's mutex is already locked, \<^verbatim>\<open>fpga_region_core_program_fpga\<close>
  returns \<^verbatim>\<open>-EBUSY\<close> at once and changes nothing: not the region, not the manager's
  lock, not the interface list, not any interface.
\<close>

theorem program_busy_region:
  assumes "region_mutex s"
  shows "fpga_region_core_program_fpga K gi s = (- EBUSY, s)"
  using assms by (simp add: fpga_region_core_program_fpga_def fpga_region_core_get_def)

text \<open>A region that is being programmed refuses a second call.\<close>

theorem program_busy_region_witness:
  "fpga_region_core_program_fpga kernel0 (Some get_interfaces0) (sys0\<lparr>region_mutex := True\<rparr>)
     = (- 16, sys0\<lparr>region_mutex := True\<rparr>)"
  using program_busy_region [of "sys0\<lparr>region_mutex := True\<rparr>" kernel0 "Some get_interfaces0"]
  by (simp add: example_defs)

section \<open>Acquiring and releasing an interface\<close>

text \<open>
  C5. Acquisition does not wait and fails with \<^verbatim>\<open>-EBUSY\<close> on a held interface, but it
  stores the caller's image info before it tries the lock. Here the interface at
  address 1 is held for image 5; an attempt to acquire it for image 9 fails with
  \<^verbatim>\<open>-EBUSY\<close>, and afterwards the interface, still held, records image 9.
\<close>

theorem get_busy_overwrites_info:
  "fst (internal_fpga_region_interface_get kernel0 1 (Some 9)
          (sys0\<lparr>interfaces := (\<lambda>a. interface0\<lparr>mutex := True, info := Some 5\<rparr>)\<rparr>))
     = Inl (- EBUSY) \<and>
   info (interfaces
          (snd (internal_fpga_region_interface_get kernel0 1 (Some 9)
                 (sys0\<lparr>interfaces := (\<lambda>a. interface0\<lparr>mutex := True, info := Some 5\<rparr>)\<rparr>))) 1)
     = Some 9 \<and>
   mutex (interfaces
          (snd (internal_fpga_region_interface_get kernel0 1 (Some 9)
                 (sys0\<lparr>interfaces := (\<lambda>a. interface0\<lparr>mutex := True, info := Some 5\<rparr>)\<rparr>))) 1)"
  by (simp add: get_put_defs example_defs Let_def)

text \<open>
  C7, as stated, fails: \<^verbatim>\<open>fpga_region_interface_put\<close> calls no hook. The held clock
  interface has a \<^verbatim>\<open>remove\<close> hook (which would reset its private data to 0); after the
  put the trace has no call of it and the private data is still 7.
\<close>

theorem put_skips_remove_hook:
  "ops_remove (interfaces (sys0\<lparr>interfaces := (\<lambda>a. interface0\<lparr>mutex := True, info := Some 5\<rparr>)\<rparr>) 1)
     \<noteq> None \<and>
   Remove 1 \<notin> set (trace (fpga_region_interface_put 1
       (sys0\<lparr>interfaces := (\<lambda>a. interface0\<lparr>mutex := True, info := Some 5\<rparr>)\<rparr>))) \<and>
   priv (interfaces (fpga_region_interface_put 1
       (sys0\<lparr>interfaces := (\<lambda>a. interface0\<lparr>mutex := True, info := Some 5\<rparr>)\<rparr>)) 1) = 7"
  by (simp add: get_put_defs interface_defs example_defs Let_def)

text \<open>
  C7, amended. \<^verbatim>\<open>fpga_region_interface_put\<close> clears the recorded image info, drops the
  module and device references and unlocks the mutex; it calls no hook and leaves the
  private data alone. The \<^verbatim>\<open>remove\<close> hook is called, when defined, by
  \<^verbatim>\<open>fpga_region_interface_unregister\<close>, before the device is unregistered.
\<close>

theorem put_releases_unregister_removes:
  "info (interfaces (fpga_region_interface_put a s) a) = None \<and>
   \<not> mutex (interfaces (fpga_region_interface_put a s) a) \<and>
   priv (interfaces (fpga_region_interface_put a s) a) = priv (interfaces s a) \<and>
   trace (fpga_region_interface_put a s)
     = trace s @ [ModulePut (interface_dev a), PutDevice (interface_dev a)] \<and>
   (\<forall>c f. ops (interfaces s a) = Some c \<and> remove c = Some f \<longrightarrow>
      trace (fpga_region_interface_unregister a s)
        = trace s @ [Remove a, DeviceUnregister (interface_dev a)] \<and>
      priv (interfaces (fpga_region_interface_unregister a s) a) = f (priv (interfaces s a))) \<and>
   ((ops (interfaces s a) = None \<or> (\<exists>c. ops (interfaces s a) = Some c \<and> remove c = None)) \<longrightarrow>
      fpga_region_interface_unregister a s = emit (DeviceUnregister (interface_dev a)) s)"
  by (auto simp: get_put_defs interface_defs Let_def)

text \<open>Unregistering the clock interface calls its hook; unregistering an interface
  without ops only unregisters the device.\<close>

theorem put_releases_unregister_removes_witness:
  "trace (fpga_region_interface_unregister 1 sys0) = [Remove 1, DeviceUnregister (interface_dev 1)] \<and>
   priv (interfaces (fpga_region_interface_unregister 1 sys0) 1) = 0 \<and>
   trace (fpga_region_interface_unregister 1 (sys0\<lparr>interfaces := (\<lambda>a. interface0\<lparr>ops := None\<rparr>)\<rparr>))
     = [DeviceUnregister (interface_dev 1)]"
  using put_releases_unregister_removes [of 1 sys0]
    put_releases_unregister_removes [of 1 "sys0\<lparr>interfaces := (\<lambda>a. interface0\<lparr>ops := None\<rparr>)\<rparr>"]
  by (simp add: example_defs)

text \<open>
  C10. \<^verbatim>\<open>of_fpga_region_interface_get_to_list\<close> first tries the node as a region
  interface. When that fails, for whatever reason, it tries the node as a legacy bridge;
  when both fail, the code returned is the bridge attempt's, and the list is unchanged.
  When the first attempt succeeds the bridge is not tried.
\<close>

theorem get_to_list_fallback:
  "(\<forall>e s1 e'. of_fpga_region_interface_get K np img s = (Inl e, s1) \<and>
        of_fpga_bridge_get K np img = Inl e' \<longrightarrow>
      of_fpga_region_interface_get_to_list K np img l s = (e', l, s1)) \<and>
   (\<forall>e s1 b. of_fpga_region_interface_get K np img s = (Inl e, s1) \<and>
        of_fpga_bridge_get K np img = Inr b \<longrightarrow>
      of_fpga_region_interface_get_to_list K np img l s = (0, b # l, emit (BridgeGet b) s1)) \<and>
   (\<forall>a s1. of_fpga_region_interface_get K np img s = (Inr a, s1) \<longrightarrow>
      of_fpga_region_interface_get_to_list K np img l s = (0, a # l, s1))"
  by (simp add: of_fpga_region_interface_get_to_list_def list_add_def)

text \<open>The interface of node 10 is held, so the first attempt fails with \<^verbatim>\<open>-EBUSY\<close>;
  no bridge is registered for the node, and the caller sees \<^verbatim>\<open>-ENODEV\<close>.\<close>

theorem get_to_list_fallback_witness:
  "fst (of_fpga_region_interface_get kernel0 10 (Some 9)
          (sys0\<lparr>interfaces := (\<lambda>a. interface0\<lparr>mutex := True\<rparr>)\<rparr>)) = Inl (- EBUSY) \<and>
   fst (of_fpga_region_interface_get_to_list kernel0 10 (Some 9) []
          (sys0\<lparr>interfaces := (\<lambda>a. interface0\<lparr>mutex := True\<rparr>)\<rparr>)) = - ENODEV \<and>
   fst (of_fpga_region_interface_get_to_list kernel0 10 (Some 9) [] sys0) = 0"
  using get_to_list_fallback
      [of kernel0 10 "Some 9" "sys0\<lparr>interfaces := (\<lambda>a. interface0\<lparr>mutex := True\<rparr>)\<rparr>" "[]"]
    get_to_list_fallback [of kernel0 10 "Some 9" sys0 "[]"]
  by (simp add: get_put_defs example_defs Let_def)

section \<open>Order of the list walks\<close>

text \<open>
  C2. The interfaces of nodes 10 and 20 (addresses 1 and 2) are acquired in this order
  to an empty list. \<^verbatim>\<open>list_add\<close> puts each new entry at the head, so the list is
  \<open>[2, 1]\<close>: \<^verbatim>\<open>fpga_region_interfaces_enable\<close> visits 2 and then 1, the reverse of
  the acquisition order, and \<^verbatim>\<open>fpga_region_interfaces_disable\<close> visits 1 and then 2.
\<close>

theorem get_to_list_order_reversed:
  "(case of_fpga_region_interface_get_to_list kernel0 10 (Some 5) [] sys0 of
      (r1, l1, s1) \<Rightarrow>
        (case of_fpga_region_interface_get_to_list kernel0 20 (Some 5) l1 s1 of
           (r2, l2, s2) \<Rightarrow>
             r1 = 0 \<and> r2 = 0 \<and> l1 = [1] \<and> l2 = [2, 1] \<and>
             fst (fpga_region_interfaces_enable kernel0 l2 (s2\<lparr>trace := []\<rparr>)) = 0 \<and>
             fst (fpga_region_interfaces_disable kernel0 l2 (s2\<lparr>trace := []\<rparr>)) = 0 \<and>
             trace (snd (fpga_region_interfaces_enable kernel0 l2 (s2\<lparr>trace := []\<rparr>)))
               = [EnableSet 2 True, EnableSet 1 True] \<and>
             trace (snd (fpga_region_interfaces_disable kernel0 l2 (s2\<lparr>trace := []\<rparr>)))
               = [EnableSet 1 False, EnableSet 2 False]))"
  by (simp add: get_put_defs interface_defs list_defs example_defs Let_def emit_def set_interface_def)

section \<open>The list walks stop at the first failure\<close>

lemma interfaces_enable_append:
  "fpga_region_interfaces_enable K (l1 @ l2) s =
     (case fpga_region_interfaces_enable K l1 s of
        (r, s1) \<Rightarrow> if r \<noteq> 0 then (r, s1) else fpga_region_interfaces_enable K l2 s1)"
  by (induction l1 arbitrary: s) (auto split: prod.splits)

lemma interfaces_disable_each_append:
  "interfaces_disable_each K (l1 @ l2) s =
     (case interfaces_disable_each K l1 s of
        (r, s1) \<Rightarrow> if r \<noteq> 0 then (r, s1) else interfaces_disable_each K l2 s1)"
  by (induction l1 arbitrary: s) (auto split: prod.splits)

lemma interfaces_enable_failing_member:
  "fst (fpga_region_interfaces_enable K l s) \<noteq> 0 \<Longrightarrow>
     \<exists>pre x post s1. l = pre @ x # post \<and>
       fpga_region_interfaces_enable K pre s = (0, s1) \<and>
       fst (fpga_region_interface_enable K x s1) \<noteq> 0 \<and>
       fpga_region_interfaces_enable K l s = fpga_region_interface_enable K x s1"
proof (induction l arbitrary: s)
  case Nil
  then show ?case by simp
next
  case (Cons a l)
  obtain r s' where step: "fpga_region_interface_enable K a s = (r, s')"
    by (cases "fpga_region_interface_enable K a s")
  show ?case
  proof (cases "r = 0")
    case False
    with step have "a # l = [] @ a # l \<and>
        fpga_region_interfaces_enable K [] s = (0, s) \<and>
        fst (fpga_region_interface_enable K a s) \<noteq> 0 \<and>
        fpga_region_interfaces_enable K (a # l) s = fpga_region_interface_enable K a s"
      by simp
    then show ?thesis by blast
  next
    case True
    with step Cons.prems have "fst (fpga_region_interfaces_enable K l s') \<noteq> 0" by simp
    from Cons.IH [OF this] obtain pre x post s1 where
      l: "l = pre @ x # post" and
      pre: "fpga_region_interfaces_enable K pre s' = (0, s1)" and
      x: "fst (fpga_region_interface_enable K x s1) \<noteq> 0" and
      all: "fpga_region_interfaces_enable K l s' = fpga_region_interface_enable K x s1"
      by blast
    from l pre x all step True have "a # l = (a # pre) @ x # post \<and>
        fpga_region_interfaces_enable K (a # pre) s = (0, s1) \<and>
        fst (fpga_region_interface_enable K x s1) \<noteq> 0 \<and>
        fpga_region_interfaces_enable K (a # l) s = fpga_region_interface_enable K x s1"
      by simp
    then show ?thesis by blast
  qed
qed

lemma interfaces_disable_each_failing_member:
  "fst (interfaces_disable_each K l s) \<noteq> 0 \<Longrightarrow>
     \<exists>pre x post s1. l = pre @ x # post \<and>
       interfaces_disable_each K pre s = (0, s1) \<and>
       fst (fpga_region_interface_disable K x s1) \<noteq> 0 \<and>
       interfaces_disable_each K l s = fpga_region_interface_disable K x s1"
proof (induction l arbitrary: s)
  case Nil
  then show ?case by simp
next
  case (Cons a l)
  obtain r s' where step: "fpga_region_interface_disable K a s = (r, s')"
    by (cases "fpga_region_interface_disable K a s")
  show ?case
  proof (cases "r = 0")
    case False
    with step have "a # l = [] @ a # l \<and>
        interfaces_disable_each K [] s = (0, s) \<and>
        fst (fpga_region_interface_disable K a s) \<noteq> 0 \<and>
        interfaces_disable_each K (a # l) s = fpga_region_interface_disable K a s"
      by simp
    then show ?thesis by blast
  next
    case True
    with step Cons.prems have "fst (interfaces_disable_each K l s') \<noteq> 0" by simp
    from Cons.IH [OF this] obtain pre x post s1 where
      l: "l = pre @ x # post" and
      pre: "interfaces_disable_each K pre s' = (0, s1)" and
      x: "fst (fpga_region_interface_disable K x s1) \<noteq> 0" and
      all: "interfaces_disable_each K l s' = fpga_region_interface_disable K x s1"
      by blast
    from l pre x all step True have "a # l = (a # pre) @ x # post \<and>
        interfaces_disable_each K (a # pre) s = (0, s1) \<and>
        fst (fpga_region_interface_disable K x s1) \<noteq> 0 \<and>
        interfaces_disable_each K (a # l) s = fpga_region_interface_disable K x s1"
      by simp
    then show ?thesis by blast
  qed
qed

lemma interfaces_disable_failing_member:
  assumes "fst (fpga_region_interfaces_disable K l s) \<noteq> 0"
  shows "\<exists>pre x post s1. l = pre @ x # post \<and>
       fpga_region_interfaces_disable K post s = (0, s1) \<and>
       fst (fpga_region_interface_disable K x s1) \<noteq> 0 \<and>
       fpga_region_interfaces_disable K l s = fpga_region_interface_disable K x s1"
proof -
  from assms have "fst (interfaces_disable_each K (rev l) s) \<noteq> 0"
    by (simp add: fpga_region_interfaces_disable_def)
  from interfaces_disable_each_failing_member [OF this] obtain p x q s1 where
    l: "rev l = p @ x # q" and
    p: "interfaces_disable_each K p s = (0, s1)" and
    x: "fst (fpga_region_interface_disable K x s1) \<noteq> 0" and
    all: "interfaces_disable_each K (rev l) s = fpga_region_interface_disable K x s1"
    by blast
  from l have "rev (rev l) = rev (p @ x # q)" by simp
  then have "l = rev q @ x # rev p" by simp
  with p x all have "l = rev q @ x # rev p \<and>
       fpga_region_interfaces_disable K (rev p) s = (0, s1) \<and>
       fst (fpga_region_interface_disable K x s1) \<noteq> 0 \<and>
       fpga_region_interfaces_disable K l s = fpga_region_interface_disable K x s1"
    by (simp add: fpga_region_interfaces_disable_def)
  then show ?thesis by blast
qed

text \<open>
  C6. \<^verbatim>\<open>fpga_region_interfaces_enable\<close> and \<^verbatim>\<open>fpga_region_interfaces_disable\<close> return 0
  on the empty list. When the members before \<open>x\<close> in the walk (\<open>pre\<close> for enable,
  \<open>post\<close> for disable) have succeeded and the operation on \<open>x\<close> fails with \<open>r\<close>, the
  walk returns \<open>r\<close> in the state right after that operation: nothing is done on the
  members behind \<open>x\<close>. A walk that returns a code other than 0 has met such a member,
  so a walk on which every operation succeeds returns 0.
\<close>

theorem interfaces_walk_aborts:
  "fpga_region_interfaces_enable K [] s = (0, s) \<and>
   fpga_region_interfaces_disable K [] s = (0, s) \<and>
   (fpga_region_interfaces_enable K pre s = (0, s1) \<and>
    fpga_region_interface_enable K x s1 = (r, s2) \<and> r \<noteq> 0 \<longrightarrow>
      fpga_region_interfaces_enable K (pre @ x # post) s = (r, s2)) \<and>
   (fpga_region_interfaces_disable K post s = (0, s1) \<and>
    fpga_region_interface_disable K x s1 = (r, s2) \<and> r \<noteq> 0 \<longrightarrow>
      fpga_region_interfaces_disable K (pre @ x # post) s = (r, s2)) \<and>
   (fst (fpga_region_interfaces_enable K l s) \<noteq> 0 \<longrightarrow>
      (\<exists>pre x post s1. l = pre @ x # post \<and>
         fpga_region_interfaces_enable K pre s = (0, s1) \<and>
         fst (fpga_region_interface_enable K x s1) \<noteq> 0)) \<and>
   (fst (fpga_region_interfaces_disable K l s) \<noteq> 0 \<longrightarrow>
      (\<exists>pre x post s1. l = pre @ x # post \<and>
         fpga_region_interfaces_disable K post s = (0, s1) \<and>
         fst (fpga_region_interface_disable K x s1) \<noteq> 0))"
proof -
  have en: "fpga_region_interfaces_enable K pre s = (0, s1) \<and>
      fpga_region_interface_enable K x s1 = (r, s2) \<and> r \<noteq> 0 \<longrightarrow>
      fpga_region_interfaces_enable K (pre @ x # post) s = (r, s2)"
    by (simp add: interfaces_enable_append)
  have dis: "fpga_region_interfaces_disable K post s = (0, s1) \<and>
      fpga_region_interface_disable K x s1 = (r, s2) \<and> r \<noteq> 0 \<longrightarrow>
      fpga_region_interfaces_disable K (pre @ x # post) s = (r, s2)"
    by (simp add: fpga_region_interfaces_disable_def interfaces_disable_each_append)
  have en0: "fst (fpga_region_interfaces_enable K l s) \<noteq> 0 \<longrightarrow>
      (\<exists>pre x post s1. l = pre @ x # post \<and>
         fpga_region_interfaces_enable K pre s = (0, s1) \<and>
         fst (fpga_region_interface_enable K x s1) \<noteq> 0)"
    using interfaces_enable_failing_member [of K l s] by blast
  have dis0: "fst (fpga_region_interfaces_disable K l s) \<noteq> 0 \<longrightarrow>
      (\<exists>pre x post s1. l = pre @ x # post \<and>
         fpga_region_interfaces_disable K post s = (0, s1) \<and>
         fst (fpga_region_interface_disable K x s1) \<noteq> 0)"
    using interfaces_disable_failing_member [of K l s] by blast
  show ?thesis
    using en dis en0 dis0 by (simp add: fpga_region_interfaces_disable_def)
qed

text \<open>Interface 2 of \<open>[1, 2, 3]\<close> fails: enable stops after 1 and 2, disable after 3
  and 2.\<close>

theorem interfaces_walk_aborts_witness:
  "fpga_region_interfaces_enable kernel0 [] sys_failing = (0, sys_failing) \<and>
   fst (fpga_region_interfaces_enable kernel0 ([1] @ 2 # [3]) sys_failing) = - 5 \<and>
   trace (snd (fpga_region_interfaces_enable kernel0 ([1] @ 2 # [3]) sys_failing))
     = [EnableSet 1 True, EnableSet 2 True] \<and>
   fst (fpga_region_interfaces_disable kernel0 ([1] @ 2 # [3]) sys_failing) = - 5 \<and>
   trace (snd (fpga_region_interfaces_disable kernel0 ([1] @ 2 # [3]) sys_failing))
     = [EnableSet 3 False, EnableSet 2 False]"
  using interfaces_walk_aborts
      [where K = kernel0 and s = sys_failing and pre = "[1]" and x = 2 and post = "[3]"
         and r = "- 5" and l = "[1, 2, 3]"
         and ?s1.0 = "snd (fpga_region_interfaces_enable kernel0 [1] sys_failing)"
         and ?s2.0 = "snd (fpga_region_interface_enable kernel0 2
                        (snd (fpga_region_interfaces_enable kernel0 [1] sys_failing)))"]
    interfaces_walk_aborts
      [where K = kernel0 and s = sys_failing and pre = "[1]" and x = 2 and post = "[3]"
         and r = "- 5" and l = "[1, 2, 3]"
         and ?s1.0 = "snd (fpga_region_interfaces_disable kernel0 [3] sys_failing)"
         and ?s2.0 = "snd (fpga_region_interface_disable kernel0 2
                        (snd (fpga_region_interfaces_disable kernel0 [3] sys_failing)))"]
  by (simp add: interface_defs list_defs example_defs sys_failing_def Let_def)

section \<open>Programming the region\<close>

lemma interface_enable_frame:
  "fpga_region_interface_enable K a s = (r, s') \<Longrightarrow>
     region_view s' = region_view s \<and> held_view s' = held_view s"
  by (auto simp: interface_defs region_view_def held_view_def Let_def fun_eq_iff
      split: if_splits option.splits prod.splits)

lemma interface_disable_frame:
  "fpga_region_interface_disable K a s = (r, s') \<Longrightarrow>
     region_view s' = region_view s \<and> held_view s' = held_view s"
  by (auto simp: interface_defs region_view_def held_view_def Let_def fun_eq_iff
      split: if_splits option.splits prod.splits)

lemma interfaces_enable_frame:
  "fpga_region_interfaces_enable K l s = (r, s') \<Longrightarrow>
     region_view s' = region_view s \<and> held_view s' = held_view s"
proof (induction l arbitrary: s)
  case Nil
  then show ?case by simp
next
  case (Cons a l)
  obtain r1 s1 where step: "fpga_region_interface_enable K a s = (r1, s1)"
    by (cases "fpga_region_interface_enable K a s")
  note fr = interface_enable_frame [OF step]
  show ?case
  proof (cases "r1 = 0")
    case True
    with step Cons.prems have "fpga_region_interfaces_enable K l s1 = (r, s')" by simp
    from Cons.IH [OF this] fr show ?thesis by simp
  next
    case False
    with step Cons.prems have "s' = s1" by simp
    with fr show ?thesis by simp
  qed
qed

lemma interfaces_disable_each_frame:
  "interfaces_disable_each K l s = (r, s') \<Longrightarrow>
     region_view s' = region_view s \<and> held_view s' = held_view s"
proof (induction l arbitrary: s)
  case Nil
  then show ?case by simp
next
  case (Cons a l)
  obtain r1 s1 where step: "fpga_region_interface_disable K a s = (r1, s1)"
    by (cases "fpga_region_interface_disable K a s")
  note fr = interface_disable_frame [OF step]
  show ?case
  proof (cases "r1 = 0")
    case True
    with step Cons.prems have "interfaces_disable_each K l s1 = (r, s')" by simp
    from Cons.IH [OF this] fr show ?thesis by simp
  next
    case False
    with step Cons.prems have "s' = s1" by simp
    with fr show ?thesis by simp
  qed
qed

lemma interfaces_disable_frame:
  "fpga_region_interfaces_disable K l s = (r, s') \<Longrightarrow>
     region_view s' = region_view s \<and> held_view s' = held_view s"
  by (simp add: fpga_region_interfaces_disable_def interfaces_disable_each_frame)

text \<open>Releasing a list: the list that is left is empty, the region-interface members
  are free with no image info, and nothing is ever locked.\<close>

lemma interfaces_put_released:
  "fpga_region_interfaces_put K l s = (l', s') \<Longrightarrow>
     l' = [] \<and> region_view s' = region_view s \<and>
     (\<forall>b. fst (held_view s' b) = fst (held_view s b)) \<and>
     (\<forall>b. snd (held_view s b) = (False, None) \<longrightarrow> snd (held_view s' b) = (False, None)) \<and>
     (\<forall>a\<in>set l. fst (held_view s a) = fpga_region_interface_class \<longrightarrow>
        snd (held_view s' a) = (False, None))"
proof (induction l arbitrary: s)
  case Nil
  then show ?case by simp
next
  case (Cons a l)
  define s1 where "s1 = (if dev_class (interfaces s a) = fpga_region_interface_class
        then fpga_region_interface_put a s else emit (BridgePut a) s)"
  have step: "region_view s1 = region_view s"
    "\<forall>b. fst (held_view s1 b) = fst (held_view s b)"
    "\<forall>b. snd (held_view s b) = (False, None) \<longrightarrow> snd (held_view s1 b) = (False, None)"
    "fst (held_view s a) = fpga_region_interface_class \<longrightarrow> snd (held_view s1 a) = (False, None)"
    by (auto simp: s1_def get_put_defs region_view_def held_view_def Let_def)
  from Cons.prems have "fpga_region_interfaces_put K l s1 = (l', s')"
    by (simp add: s1_def)
  from Cons.IH [OF this] step show ?case by auto
qed

lemma program_acquired:
  assumes "\<not> region_mutex s" "try_module_get K region_dev" "\<not> mgr_ref_mutex s"
  shows "fpga_region_core_get K s = (Inr (), snd (fpga_region_core_get K s))"
    and "fpga_mgr_lock (snd (fpga_region_core_get K s))
           = (0, snd (fpga_mgr_lock (snd (fpga_region_core_get K s))))"
    and "region_interface_list (snd (fpga_mgr_lock (snd (fpga_region_core_get K s))))
           = region_interface_list s"
    and "interfaces (snd (fpga_mgr_lock (snd (fpga_region_core_get K s)))) = interfaces s"
  using assms by (simp_all add: fpga_region_core_get_def fpga_mgr_lock_def Let_def)

lemma err_labels:
  "fst (err_put_region ret s) = ret"
  "\<not> region_mutex (snd (err_put_region ret s))"
  "mgr_ref_mutex (snd (err_put_region ret s)) = mgr_ref_mutex s"
  "region_interface_list (snd (err_put_region ret s)) = region_interface_list s"
  "interfaces (snd (err_put_region ret s)) = interfaces s"
  "fst (err_unlock_mgr ret s) = ret"
  "\<not> region_mutex (snd (err_unlock_mgr ret s))"
  "\<not> mgr_ref_mutex (snd (err_unlock_mgr ret s))"
  "region_interface_list (snd (err_unlock_mgr ret s)) = region_interface_list s"
  "interfaces (snd (err_unlock_mgr ret s)) = interfaces s"
  by (simp_all add: err_put_region_def err_unlock_mgr_def fpga_region_core_put_def
      fpga_mgr_unlock_def)

lemma err_put_br_none:
  "fst (err_put_br K None ret s) = ret"
  "\<not> region_mutex (snd (err_put_br K None ret s))"
  "\<not> mgr_ref_mutex (snd (err_put_br K None ret s))"
  "region_interface_list (snd (err_put_br K None ret s)) = region_interface_list s"
  "interfaces (snd (err_put_br K None ret s)) = interfaces s"
  by (simp_all add: err_put_br_def err_labels)

lemma err_put_br_some:
  "fst (err_put_br K (Some g) ret s) = ret"
  "\<not> region_mutex (snd (err_put_br K (Some g) ret s))"
  "\<not> mgr_ref_mutex (snd (err_put_br K (Some g) ret s))"
  "region_interface_list (snd (err_put_br K (Some g) ret s)) = []"
  "\<forall>a\<in>set (region_interface_list s). fst (held_view s a) = fpga_region_interface_class \<longrightarrow>
     snd (held_view (snd (err_put_br K (Some g) ret s)) a) = (False, None)"
proof -
  obtain l' s' where put: "fpga_region_interfaces_put K (region_interface_list s) s = (l', s')"
    by (cases "fpga_region_interfaces_put K (region_interface_list s) s")
  note rel = interfaces_put_released [OF put]
  from put show "fst (err_put_br K (Some g) ret s) = ret"
    "\<not> region_mutex (snd (err_put_br K (Some g) ret s))"
    "\<not> mgr_ref_mutex (snd (err_put_br K (Some g) ret s))"
    by (simp_all add: err_put_br_def err_labels)
  from put rel show "region_interface_list (snd (err_put_br K (Some g) ret s)) = []"
    by (simp add: err_put_br_def err_labels)
  from put rel show "\<forall>a\<in>set (region_interface_list s).
     fst (held_view s a) = fpga_region_interface_class \<longrightarrow>
     snd (held_view (snd (err_put_br K (Some g) ret s)) a) = (False, None)"
    by (simp add: err_put_br_def err_labels held_view_def)
qed


text \<open>The phases of a call that has taken both locks.\<close>

lemma program_phases:
  assumes acq: "\<not> region_mutex s" "try_module_get K region_dev" "\<not> mgr_ref_mutex s"
    and res: "(case gi of Some g \<Rightarrow> g (snd (fpga_mgr_lock (snd (fpga_region_core_get K s))))
                | None \<Rightarrow> (0, snd (fpga_mgr_lock (snd (fpga_region_core_get K s))))) = (r2, s2)"
    and dis: "fpga_region_interfaces_disable K (region_interface_list s2) s2 = (r3, s3)"
    and en: "fpga_region_interfaces_enable K (region_interface_list s3)
               (emit (MgrLoad (region_info s)) s3) = (r5, s5)"
  shows "fpga_region_core_program_fpga K gi s =
     (if r2 \<noteq> 0 then err_unlock_mgr r2 s2
      else if r3 \<noteq> 0 then err_put_br K gi r3 s3
      else if fpga_mgr_load K (region_info s) \<noteq> 0
        then err_put_br K gi (fpga_mgr_load K (region_info s)) (emit (MgrLoad (region_info s)) s3)
      else if r5 \<noteq> 0 then err_put_br K gi r5 s5
      else (0, fpga_region_core_put (fpga_mgr_unlock s5)))"
proof -
  note a = program_acquired [OF acq]
  have "fpga_region_core_program_fpga K gi s =
     (case (case gi of Some g \<Rightarrow> g (snd (fpga_mgr_lock (snd (fpga_region_core_get K s))))
                | None \<Rightarrow> (0, snd (fpga_mgr_lock (snd (fpga_region_core_get K s))))) of
        (ret, s2) \<Rightarrow>
        if ret \<noteq> 0 then err_unlock_mgr ret s2 else
      case fpga_region_interfaces_disable K (region_interface_list s2) s2 of (ret, s3) \<Rightarrow>
        if ret \<noteq> 0 then err_put_br K gi ret s3 else
      case (fpga_mgr_load K (region_info s), emit (MgrLoad (region_info s)) s3) of (ret, s4) \<Rightarrow>
        if ret \<noteq> 0 then err_put_br K gi ret s4 else
      case fpga_region_interfaces_enable K (region_interface_list s4) s4 of (ret, s5) \<Rightarrow>
        if ret \<noteq> 0 then err_put_br K gi ret s5 else
      (0, fpga_region_core_put (fpga_mgr_unlock s5)))"
    unfolding fpga_region_core_program_fpga_def Let_def
    by (subst a(1), simp only: sum.case prod.case, subst a(2), simp only: prod.case) simp
  with res dis en show ?thesis by simp
qed

lemma program_not_acquired:
  assumes "\<not> region_mutex s" "\<not> try_module_get K region_dev \<or> mgr_ref_mutex s"
  shows "fst (fpga_region_core_program_fpga K gi s) \<noteq> 0"
    and "\<not> region_mutex (snd (fpga_region_core_program_fpga K gi s))"
    and "mgr_ref_mutex (snd (fpga_region_core_program_fpga K gi s)) = mgr_ref_mutex s"
    and "region_interface_list (snd (fpga_region_core_program_fpga K gi s))
           = region_interface_list s"
    and "interfaces (snd (fpga_region_core_program_fpga K gi s)) = interfaces s"
  using assms
  by (auto simp: fpga_region_core_program_fpga_def fpga_region_core_get_def fpga_mgr_lock_def
      err_labels Let_def EBUSY_def ENODEV_def)


lemma err_put_br_fst: "fst (err_put_br K gi ret s) = ret"
  by (cases gi) (simp_all add: err_put_br_none err_put_br_some)

lemma held_view_eq:
  "held_view s' = held_view s \<Longrightarrow>
     dev_class (interfaces s' a) = dev_class (interfaces s a) \<and>
     mutex (interfaces s' a) = mutex (interfaces s a) \<and>
     info (interfaces s' a) = info (interfaces s a)"
  by (auto simp: held_view_def fun_eq_iff)

lemma region_view_eq:
  "region_view s' = region_view s \<Longrightarrow>
     region_mutex s' = region_mutex s \<and> region_info s' = region_info s \<and>
     region_interface_list s' = region_interface_list s \<and>
     mgr_ref_mutex s' = mgr_ref_mutex s"
  by (simp add: region_view_def)

text \<open>The walks of a call that has passed resolution leave the list and the holds as
  resolution left them.\<close>

lemma program_walks_frame:
  assumes dis: "fpga_region_interfaces_disable K (region_interface_list s2) s2 = (r3, s3)"
    and en: "fpga_region_interfaces_enable K (region_interface_list s3)
               (emit (MgrLoad img) s3) = (r5, s5)"
  shows "region_interface_list s3 = region_interface_list s2"
    and "held_view s3 = held_view s2"
    and "region_interface_list s5 = region_interface_list s2"
    and "held_view s5 = held_view s2"
proof -
  from interfaces_disable_frame [OF dis]
  show d: "region_interface_list s3 = region_interface_list s2" "held_view s3 = held_view s2"
    by (simp_all add: region_view_def)
  have "held_view (emit (MgrLoad img) s3) = held_view s3"
    "region_view (emit (MgrLoad img) s3) = region_view s3"
    by (simp_all add: held_view_def region_view_def fun_eq_iff)
  with interfaces_enable_frame [OF en] d
  show "region_interface_list s5 = region_interface_list s2" "held_view s5 = held_view s2"
    by (simp_all add: region_view_def)
qed



text \<open>What a failed call leaves behind, by the place of the failure.\<close>

lemma program_failure_cases:
  assumes run: "fpga_region_core_program_fpga K gi s = (ret, s')"
    and err: "ret \<noteq> 0"
    and free: "\<not> region_mutex s"
  shows "\<not> region_mutex s' \<and> mgr_ref_mutex s' = mgr_ref_mutex s \<and>
    (gi = None \<or> mgr_ref_mutex s \<or> \<not> try_module_get K region_dev \<longrightarrow>
       region_interface_list s' = region_interface_list s \<and>
       (\<forall>a. mutex (interfaces s' a) = mutex (interfaces s a) \<and>
            info (interfaces s' a) = info (interfaces s a))) \<and>
    (\<forall>g r s2. gi = Some g \<and> \<not> mgr_ref_mutex s \<and> try_module_get K region_dev \<and>
         g (snd (fpga_mgr_lock (snd (fpga_region_core_get K s)))) = (r, s2) \<longrightarrow>
       (r \<noteq> 0 \<longrightarrow>
          ret = r \<and> region_interface_list s' = region_interface_list s2 \<and>
          interfaces s' = interfaces s2) \<and>
       (r = 0 \<longrightarrow>
          region_interface_list s' = [] \<and>
          (\<forall>a\<in>set (region_interface_list s2).
             dev_class (interfaces s2 a) = fpga_region_interface_class \<longrightarrow>
             \<not> mutex (interfaces s' a) \<and> info (interfaces s' a) = None)))"
proof (cases "\<not> try_module_get K region_dev \<or> mgr_ref_mutex s")
  case True
  from program_not_acquired [OF free True, of gi] run True show ?thesis by auto
next
  case False
  then have acq: "try_module_get K region_dev" "\<not> mgr_ref_mutex s" by simp_all
  define s1 where "s1 = snd (fpga_mgr_lock (snd (fpga_region_core_get K s)))"
  obtain r2 s2 where res: "(case gi of Some g \<Rightarrow> g s1 | None \<Rightarrow> (0, s1)) = (r2, s2)"
    by (cases "case gi of Some g \<Rightarrow> g s1 | None \<Rightarrow> (0, s1)")
  obtain r3 s3 where dis: "fpga_region_interfaces_disable K (region_interface_list s2) s2 = (r3, s3)"
    by (cases "fpga_region_interfaces_disable K (region_interface_list s2) s2")
  obtain r5 s5 where en: "fpga_region_interfaces_enable K (region_interface_list s3)
               (emit (MgrLoad (region_info s)) s3) = (r5, s5)"
    by (cases "fpga_region_interfaces_enable K (region_interface_list s3)
               (emit (MgrLoad (region_info s)) s3)")
  define s4 where "s4 = emit (MgrLoad (region_info s)) s3"
  note ph = program_phases [OF free acq res [unfolded s1_def] dis en]
  note fr = program_walks_frame [OF dis en]
  have fr4: "region_interface_list s4 = region_interface_list s2" "held_view s4 = held_view s2"
    using fr by (simp_all add: s4_def held_view_def fun_eq_iff)
  have s1: "region_interface_list s1 = region_interface_list s" "interfaces s1 = interfaces s"
    using program_acquired(3,4) [OF free acq] by (simp_all add: s1_def)
  have "(r2 \<noteq> 0 \<and> (ret, s') = err_unlock_mgr r2 s2) \<or>
        (r2 = 0 \<and> (\<exists>t. (ret, s') = err_put_br K gi ret t \<and>
            region_interface_list t = region_interface_list s2 \<and> held_view t = held_view s2))"
  proof (cases "r2 \<noteq> 0")
    case True
    with ph run show ?thesis by simp
  next
    case r2: False
    consider "r3 \<noteq> 0" | "r3 = 0" "fpga_mgr_load K (region_info s) \<noteq> 0"
      | "r3 = 0" "fpga_mgr_load K (region_info s) = 0" "r5 \<noteq> 0"
      | "r3 = 0" "fpga_mgr_load K (region_info s) = 0" "r5 = 0"
      by blast
    then show ?thesis
    proof cases
      case 1
      with ph run r2 have "(ret, s') = err_put_br K gi r3 s3" by simp
      moreover from this have "ret = r3"
        using err_put_br_fst [of K gi r3 s3] by (metis fst_conv)
      ultimately show ?thesis using r2 fr by auto
    next
      case 2
      with ph run r2 have e: "(ret, s') = err_put_br K gi (fpga_mgr_load K (region_info s)) s4"
        by (simp add: s4_def)
      moreover from this have "ret = fpga_mgr_load K (region_info s)"
        using err_put_br_fst [of K gi "fpga_mgr_load K (region_info s)" s4] by (metis fst_conv)
      ultimately show ?thesis using r2 fr4 by auto
    next
      case 3
      with ph run r2 have "(ret, s') = err_put_br K gi r5 s5" by simp
      moreover from this have "ret = r5"
        using err_put_br_fst [of K gi r5 s5] by (metis fst_conv)
      ultimately show ?thesis using r2 fr by auto
    next
      case 4
      with ph run r2 err show ?thesis by simp
    qed
  qed
  then show ?thesis
  proof (elim disjE conjE exE)
    assume r2: "r2 \<noteq> 0" and e: "(ret, s') = err_unlock_mgr r2 s2"
    from e have s': "s' = snd (err_unlock_mgr r2 s2)" "ret = fst (err_unlock_mgr r2 s2)"
      by (metis snd_conv, metis fst_conv)
    from r2 res obtain g where g: "gi = Some g" "g s1 = (r2, s2)"
      by (cases gi) auto
    from s' g acq r2 show ?thesis by (simp add: err_labels s1_def)
  next
    fix t
    assume r2: "r2 = 0" and e: "(ret, s') = err_put_br K gi ret t"
      and t: "region_interface_list t = region_interface_list s2" "held_view t = held_view s2"
    from e have s': "s' = snd (err_put_br K gi ret t)" by (metis snd_conv)
    show ?thesis
    proof (cases gi)
      case None
      with res have "s2 = s1" by simp
      with None s' t s1 acq held_view_eq [OF t(2)] show ?thesis
        by (simp add: err_put_br_none)
    next
      case (Some g)
      with res r2 have g: "g s1 = (0, s2)" by simp
      have "\<forall>a\<in>set (region_interface_list t).
          fst (held_view t a) = fpga_region_interface_class \<longrightarrow>
          snd (held_view s' a) = (False, None)"
        unfolding s' Some by (rule err_put_br_some(5))
      then have "\<forall>a\<in>set (region_interface_list s2).
          dev_class (interfaces s2 a) = fpga_region_interface_class \<longrightarrow>
          \<not> mutex (interfaces s' a) \<and> info (interfaces s' a) = None"
        using t by (simp add: held_view_def)
      with Some g s' acq show ?thesis
        by (simp add: err_put_br_some s1_def)
    qed
  qed
qed






text \<open>
  C1, as stated, fails. The region has no \<^verbatim>\<open>get_interfaces\<close> callback and its list
  holds the held interface 2, whose disable fails with \<open>-5\<close>: the call returns \<open>-5\<close>, and
  interface 2 is still on the list and still locked.
\<close>

theorem program_failure_keeps_static_list:
  "fst (fpga_region_core_program_fpga kernel0 None sys_static) = - 5 \<and>
   region_interface_list (snd (fpga_region_core_program_fpga kernel0 None sys_static)) = [2] \<and>
   mutex (interfaces (snd (fpga_region_core_program_fpga kernel0 None sys_static)) 2)"
  by (simp add: region_defs get_put_defs interface_defs list_defs example_defs sys_static_def
      Let_def)

text \<open>
  C1, amended. When \<^verbatim>\<open>fpga_region_core_program_fpga\<close>, entered with the region's mutex
  free, returns an error, the region's mutex is free again and the manager's lock is as
  it was before the call. If the region has a \<^verbatim>\<open>get_interfaces\<close> callback and the
  callback succeeded (the failure is in disable, load or enable), the interface list
  ends empty and every region-interface member of it is unlocked with its image info
  cleared. If the region has no callback, or the manager is busy, or the region's
  module is gone, nothing is released: the list, and the lock and image info of every
  interface, are as before the call. If the callback itself fails, its error is
  returned, and the list and the interfaces are as the callback left them.
\<close>

theorem program_failure_rollback:
  assumes run: "fpga_region_core_program_fpga K gi s = (ret, s')"
    and err: "ret \<noteq> 0"
    and free: "\<not> region_mutex s"
  shows "\<not> region_mutex s' \<and> mgr_ref_mutex s' = mgr_ref_mutex s \<and>
    (gi = None \<or> mgr_ref_mutex s \<or> \<not> try_module_get K region_dev \<longrightarrow>
       region_interface_list s' = region_interface_list s \<and>
       (\<forall>a. mutex (interfaces s' a) = mutex (interfaces s a) \<and>
            info (interfaces s' a) = info (interfaces s a))) \<and>
    (\<forall>g r s2. gi = Some g \<and> \<not> mgr_ref_mutex s \<and> try_module_get K region_dev \<and>
         g (snd (fpga_mgr_lock (snd (fpga_region_core_get K s)))) = (r, s2) \<longrightarrow>
       (r \<noteq> 0 \<longrightarrow>
          ret = r \<and> region_interface_list s' = region_interface_list s2 \<and>
          interfaces s' = interfaces s2) \<and>
       (r = 0 \<longrightarrow>
          region_interface_list s' = [] \<and>
          (\<forall>a\<in>set (region_interface_list s2).
             dev_class (interfaces s2 a) = fpga_region_interface_class \<longrightarrow>
             \<not> mutex (interfaces s' a) \<and> info (interfaces s' a) = None)))"
  using run err free by (rule program_failure_cases)

text \<open>With the callback, the failing disable of interface 2 ends with an empty list
  and interface 2 free; with the manager busy, the call fails with \<^verbatim>\<open>-EBUSY\<close> and the
  manager stays locked.\<close>

theorem program_failure_rollback_witness:
  "fst (fpga_region_core_program_fpga kernel0 (Some get_interfaces0) sys_failing) = - 5 \<and>
   \<not> region_mutex (snd (fpga_region_core_program_fpga kernel0 (Some get_interfaces0) sys_failing)) \<and>
   \<not> mgr_ref_mutex (snd (fpga_region_core_program_fpga kernel0 (Some get_interfaces0) sys_failing)) \<and>
   region_interface_list
     (snd (fpga_region_core_program_fpga kernel0 (Some get_interfaces0) sys_failing)) = [] \<and>
   \<not> mutex (interfaces
       (snd (fpga_region_core_program_fpga kernel0 (Some get_interfaces0) sys_failing)) 2) \<and>
   info (interfaces
       (snd (fpga_region_core_program_fpga kernel0 (Some get_interfaces0) sys_failing)) 2) = None \<and>
   fst (fpga_region_core_program_fpga kernel0 (Some get_interfaces0)
          (sys0\<lparr>mgr_ref_mutex := True\<rparr>)) = - 16 \<and>
   mgr_ref_mutex (snd (fpga_region_core_program_fpga kernel0 (Some get_interfaces0)
          (sys0\<lparr>mgr_ref_mutex := True\<rparr>)))"
  using program_failure_rollback
      [of kernel0 "Some get_interfaces0" sys_failing "- 5"
          "snd (fpga_region_core_program_fpga kernel0 (Some get_interfaces0) sys_failing)"]
    program_failure_rollback
      [of kernel0 "Some get_interfaces0" "sys0\<lparr>mgr_ref_mutex := True\<rparr>" "- 16"
          "snd (fpga_region_core_program_fpga kernel0 (Some get_interfaces0)
             (sys0\<lparr>mgr_ref_mutex := True\<rparr>))"]
  by (simp add: region_defs get_put_defs interface_defs list_defs example_defs sys_failing_def
      Let_def)

end
